theory Spec2Isabelle
  imports Complex_Main
begin

section \<open>Data model and operations\<close>

text \<open>
  Python ints are integers. Every raise of the source is a value of \<open>error\<close>, returned
  as the left injection of a sum.
\<close>

datatype error =
  TypeError | IndexError | ValueError | StatisticsError | AxisError | ZeroDivisionError | AssertionError

text \<open>\<open>int(a / b)\<close> on whole numbers: the quotient truncated towards zero.\<close>

definition py_int_of_quotient :: "int \<Rightarrow> int \<Rightarrow> int" where
  "py_int_of_quotient a b = sgn a * sgn b * (\<bar>a\<bar> div \<bar>b\<bar>)"

subsection \<open>Floating-point values\<close>

text \<open>
  The arithmetic of doubles is not modelled: the signal-processing code is written over an
  arbitrary type \<open>'v\<close> of values and a record of the operations the source applies to
  them, about which nothing is assumed. What is proved about this code therefore holds
  whatever the machine's addition, multiplication, comparison and so on compute, infinities
  and NaN included. \<open>flit\<close> is the value of a numeric literal or of an int used as a float;
  \<open>fless a b\<close> is \<open>a < b\<close>, \<open>fle a b\<close> is \<open>a <= b\<close> and \<open>feq a b\<close> is \<open>a == b\<close>.
\<close>

record 'v float_ops =
  fadd :: "'v \<Rightarrow> 'v \<Rightarrow> 'v"
  fsub :: "'v \<Rightarrow> 'v \<Rightarrow> 'v"
  fmul :: "'v \<Rightarrow> 'v \<Rightarrow> 'v"
  fdiv :: "'v \<Rightarrow> 'v \<Rightarrow> 'v"
  fabs :: "'v \<Rightarrow> 'v"
  fless :: "'v \<Rightarrow> 'v \<Rightarrow> bool"
  fle :: "'v \<Rightarrow> 'v \<Rightarrow> bool"
  feq :: "'v \<Rightarrow> 'v \<Rightarrow> bool"
  flit :: "rat \<Rightarrow> 'v"

text \<open>Python's \<open>max\<close> keeps its first argument unless a later one is greater.\<close>

definition py_max2 :: "'v float_ops \<Rightarrow> 'v \<Rightarrow> 'v \<Rightarrow> 'v" where
  "py_max2 fp a b = (if fless fp a b then b else a)"

definition py_max :: "'v float_ops \<Rightarrow> 'v list \<Rightarrow> 'v" where
  "py_max fp xs = fold (\<lambda>x m. py_max2 fp m x) (tl xs) (hd xs)"

text \<open>
  For the closed examples: exact arithmetic on rationals. In the examples below every value
  is 0 or 1, on which the operations of doubles are exact as well.
\<close>

definition exact_ops :: "rat float_ops" where
  "exact_ops = \<lparr>fadd = (+), fsub = (-), fmul = (*), fdiv = (/), fabs = abs,
                  fless = (<), fle = (\<le>), feq = (=), flit = (\<lambda>q. q)\<rparr>"

definition bind_err :: "error + 'a \<Rightarrow> ('a \<Rightarrow> error + 'b) \<Rightarrow> error + 'b" where
  "bind_err m f = (case m of Inl e \<Rightarrow> Inl e | Inr x \<Rightarrow> f x)"

subsection \<open>OnlineFilter (online_filter.py)\<close>

text \<open>
  \<open>buffer_input\<close> is created with one slot per entry of \<open>coefficients_in\<close> and never
  resized. For a FIR filter the attributes \<open>buffer_output\<close> and \<open>coefficients_out\<close> do not
  exist in the source; they are empty lists here. A write through a pointer that is not a
  valid index raises IndexError. The attribute \<open>ret\<close> is reset on every call and is a
  local value here.
\<close>

record 'v OnlineFilter =
  buffer_input :: "'v list"
  type_of_filter :: int
  norm :: 'v
  buffer_output :: "'v list"
  coefficients_out :: "'v list"
  coefficients_in :: "'v list"
  input_pointer :: nat
  output_pointer :: nat
  cnt :: nat

definition OnlineFilter_init ::
  "'v float_ops \<Rightarrow> int \<Rightarrow> 'v list \<Rightarrow> 'v list option \<Rightarrow> error + 'v OnlineFilter" where
  "OnlineFilter_init fp t c_in c_out =
     (if t = 1
      then (case c_out of
              None \<Rightarrow> Inl TypeError
            | Some a \<Rightarrow>
                if a = [] then Inl ValueError
                else Inr \<lparr>buffer_input = replicate (length c_in) (flit fp 0), type_of_filter = t,
                          norm = hd a,
                          buffer_output = replicate (length a - 1) (flit fp 0),
                          coefficients_out = tl a,
                          coefficients_in = c_in, input_pointer = 0, output_pointer = 0, cnt = 1\<rparr>)
      else Inr \<lparr>buffer_input = replicate (length c_in) (flit fp 0), type_of_filter = t,
                norm = flit fp 1, buffer_output = [], coefficients_out = [],
                coefficients_in = c_in, input_pointer = 0, output_pointer = 0, cnt = 1\<rparr>)"

text \<open>The \<open>while n < len(coefficients_in)\<close> loop of the periodic extension.\<close>

function periodic_extension :: "nat \<Rightarrow> 'v list \<Rightarrow> nat \<Rightarrow> nat \<Rightarrow> 'v list" where
  "periodic_extension L buf n i =
     (if n < L then periodic_extension L (buf[n := buf ! i]) (n + 1) (i + 1) else buf)"
  by pat_completeness auto
termination
  by (relation "measure (\<lambda>(L, buf, n, i). L - n)") auto

declare periodic_extension.simps [simp del]

definition ring_index :: "nat \<Rightarrow> nat \<Rightarrow> nat \<Rightarrow> nat" where
  "ring_index p idx L = nat ((int p - 1 - int idx) mod int L)"

text \<open>The two accumulation loops: \<open>ret += c * x\<close> and \<open>ret -= a * y\<close>, in index order.\<close>

definition input_sum :: "'v float_ops \<Rightarrow> 'v list \<Rightarrow> 'v list \<Rightarrow> nat \<Rightarrow> 'v \<Rightarrow> 'v" where
  "input_sum fp c buf p r0 =
     fold (\<lambda>idx r. fadd fp r (fmul fp (c ! idx) (buf ! ring_index p idx (length c))))
       [0..<length c] r0"

definition output_sum :: "'v float_ops \<Rightarrow> 'v list \<Rightarrow> 'v list \<Rightarrow> nat \<Rightarrow> 'v \<Rightarrow> 'v" where
  "output_sum fp a buf p r0 =
     fold (\<lambda>idx r. fsub fp r (fmul fp (a ! idx) (buf ! ring_index p idx (length a))))
       [0..<length a] r0"

definition filter_call ::
  "'v float_ops \<Rightarrow> 'v \<Rightarrow> 'v OnlineFilter \<Rightarrow> error + 'v \<times> 'v OnlineFilter" where
  "filter_call fp x s =
     (if \<not> input_pointer s < length (buffer_input s) then Inl IndexError
      else
        let L = length (coefficients_in s);
            buf1 = (buffer_input s)[input_pointer s := x];
            buf2 = (if type_of_filter s = 0 \<and> int (cnt s) < int L - 1
                    then periodic_extension L buf1 (input_pointer s + 1) 0 else buf1);
            p = (if int (input_pointer s) = int L - 1 then 0 else input_pointer s + 1);
            r = input_sum fp (coefficients_in s) buf2 p (flit fp 0)
        in if type_of_filter s = 1
           then
             let r' = output_sum fp (coefficients_out s) (buffer_output s) (output_pointer s) r
             in if \<not> output_pointer s < length (buffer_output s) then Inl IndexError
                else Inr (fdiv fp r' (norm s),
                   s\<lparr>buffer_input := buf2, input_pointer := p,
                     buffer_output := (buffer_output s)[output_pointer s := fdiv fp r' (norm s)],
                     output_pointer := (if int (output_pointer s) = int (length (coefficients_out s)) - 1
                                        then 0 else output_pointer s + 1),
                     cnt := cnt s + 1\<rparr>)
           else Inr (fdiv fp r (norm s),
                   s\<lparr>buffer_input := buf2, input_pointer := p,
                     output_pointer := (if output_pointer s = L then 0 else output_pointer s + 1),
                     cnt := cnt s + 1\<rparr>))"

subsection \<open>QrsDetector (online_qrs_detection.py)\<close>

text \<open>
  The Butterworth coefficients come from \<open>scipy.signal.butter\<close>, which is not part of the
  repository: they are a parameter. \<open>found_peaks\<close> holds buffer indices, whole numbers kept
  in a float array; they are integers here (exact in doubles below \<open>2 ^ 53\<close>), and so is
  the comparison of their difference with \<open>fs * 0.5\<close>. The attribute \<open>peak_values\<close> is
  read only in the statement that follows its assignment, so it is the local value
  \<open>chosen_peak\<close>. The unused attributes \<open>window_len\<close>, \<open>window_length\<close>, \<open>fp1\<close> and
  \<open>fp2\<close> are left out.
\<close>

record 'v ButterDesign =
  b_baseline :: "'v list"
  a_baseline :: "'v list"
  b_band :: "'v list"
  a_band :: "'v list"

record 'v QrsDetector =
  baseline_filter :: "'v OnlineFilter"
  signal_length :: int
  look_at_value :: int
  qrs_fs :: int
  thr :: 'v
  buffered_signal :: "'v list"
  filtered_signal :: "'v list"
  squared_signal :: "'v list"
  mean_signal :: "'v list"
  sum_for_mean :: 'v
  bandpass :: "'v OnlineFilter"
  box_last :: int
  up_idx :: int
  down_idx :: int
  found_peaks :: "int list"
  peak_max_values :: "'v \<times> int"
  peak_min_values :: "'v \<times> int"
  last_max :: 'v
  pre_last_max :: 'v
  pre_pre_last_max :: 'v
  pre_pre_pre_last_max :: 'v
  max_cnt :: int
  win_len :: int

definition QrsDetector_init :: "'v float_ops \<Rightarrow> 'v ButterDesign \<Rightarrow> int \<Rightarrow> error + 'v QrsDetector" where
  "QrsDetector_init fp bd delay =
     (if \<not> (280 \<le> delay \<and> delay \<le> 400) then Inl AssertionError
      else
        bind_err (OnlineFilter_init fp 1 (b_baseline bd) (Some (a_baseline bd))) (\<lambda>bf.
        bind_err (OnlineFilter_init fp 1 (b_band bd) (Some (a_band bd))) (\<lambda>bp.
          Inr \<lparr>baseline_filter = bf, signal_length = delay, look_at_value = delay - 1,
               qrs_fs = 1024, thr = flit fp (3 / 10),
               buffered_signal = replicate (nat delay) (flit fp 0), filtered_signal = [],
               squared_signal = replicate (nat delay) (flit fp 0), mean_signal = [],
               sum_for_mean = flit fp 0,
               bandpass = bp, box_last = 0, up_idx = 0, down_idx = 0, found_peaks = [],
               peak_max_values = (flit fp 0, 0), peak_min_values = (flit fp 0, 0),
               last_max = flit fp 0, pre_last_max = flit fp 0, pre_pre_last_max = flit fp 0,
               pre_pre_pre_last_max = flit fp 0,
               max_cnt = 0, win_len = 153\<rparr>)))"

definition half_window :: "'v QrsDetector \<Rightarrow> int" where
  "half_window s = py_int_of_quotient (win_len s) 2"

text \<open>Lines 148 to 180: the threshold level \<open>v_max\<close> from the recent maxima.\<close>

definition shift_maxima :: "'v \<Rightarrow> 'v QrsDetector \<Rightarrow> 'v QrsDetector" where
  "shift_maxima max_now s =
     (if max_cnt s \<ge> signal_length s
      then s\<lparr>pre_pre_pre_last_max := pre_pre_last_max s, pre_pre_last_max := pre_last_max s,
             pre_last_max := last_max s, last_max := max_now, max_cnt := 0\<rparr>
      else s)"

definition full_max :: "'v float_ops \<Rightarrow> 'v \<Rightarrow> 'v QrsDetector \<Rightarrow> 'v" where
  "full_max fp max_now s =
     py_max2 fp (py_max2 fp (py_max2 fp (py_max2 fp (last_max s) max_now) (pre_last_max s))
       (pre_pre_last_max s)) (pre_pre_pre_last_max s)"

definition is_artifact :: "'v float_ops \<Rightarrow> 'v \<Rightarrow> 'v QrsDetector \<Rightarrow> bool" where
  "is_artifact fp max_now s \<longleftrightarrow>
     fless fp (fmul fp (flit fp 10) (last_max s)) max_now
     \<and> fless fp (fmul fp (flit fp 15) (pre_last_max s)) max_now
     \<and> fless fp (fmul fp (flit fp 15) (pre_pre_last_max s)) max_now
     \<and> fless fp (fmul fp (flit fp 15) (pre_pre_pre_last_max s)) max_now
     \<and> fless fp (flit fp 0) (last_max s) \<and> fless fp (flit fp 0) (pre_last_max s)
     \<and> fless fp (flit fp 0) (pre_pre_last_max s)"

definition threshold_stage :: "'v float_ops \<Rightarrow> 'v \<Rightarrow> 'v QrsDetector \<Rightarrow> 'v \<times> 'v QrsDetector" where
  "threshold_stage fp max_now s =
     (let s1 = (if fless fp (fmul fp (flit fp 1000)
                       (py_max2 fp (py_max2 fp (last_max s) (pre_last_max s)) (pre_pre_last_max s)))
                     (pre_pre_pre_last_max s)
                then s\<lparr>pre_pre_pre_last_max := last_max s\<rparr> else s);
          (v_max, s2) =
            (if feq fp (pre_last_max s1) (flit fp 0) \<and> feq fp (pre_pre_last_max s1) (flit fp 0)
             then (full_max fp max_now s1, shift_maxima max_now s1)
             else if is_artifact fp max_now s1
             then (py_max2 fp (py_max2 fp (last_max s1) (pre_last_max s1)) (pre_pre_last_max s1), s1)
             else (full_max fp max_now s1, shift_maxima max_now s1))
      in (v_max, s2\<lparr>max_cnt := max_cnt s2 + 1\<rparr>))"

text \<open>Lines 126 to 146: differentiation, squaring and the centred moving average.\<close>

definition push_filtered :: "'v \<Rightarrow> 'v list \<Rightarrow> 'v list" where
  "push_filtered f fsig =
     (let fsig0 = f # fsig in if length fsig0 > 2 then butlast fsig0 else fsig0)"

definition push_squared :: "'v float_ops \<Rightarrow> 'v list \<Rightarrow> int \<Rightarrow> 'v list \<Rightarrow> 'v list" where
  "push_squared fp fsig w sq =
     (if length fsig > 1
      then (let d = fsub fp (fsig ! 1) (fsig ! 0); v = fmul fp d d
            in [v, v] @ take (nat (w - 2)) (drop 1 sq))
      else sq)"

definition push_mean :: "'v \<Rightarrow> int \<Rightarrow> int \<Rightarrow> 'v list \<Rightarrow> 'v list" where
  "push_mean mean_value half n ms =
     (let ms0 = replicate (nat half) mean_value @ drop (nat (half - 1)) ms
      in if int (length ms0) > n then butlast ms0 else ms0)"

definition smooth_stage :: "'v float_ops \<Rightarrow> 'v \<Rightarrow> 'v QrsDetector \<Rightarrow> error + 'v QrsDetector" where
  "smooth_stage fp f s =
     (let fsig = push_filtered f (filtered_signal s);
          sq = push_squared fp fsig (win_len s) (squared_signal s)
      in if sq = [] then Inl IndexError
         else
           let sum1 = fadd fp (sum_for_mean s) (hd sq);
               sum2 = (if int (length (buffered_signal s)) > win_len s
                       then fsub fp sum1 (last sq) else sum1);
               ms = push_mean (fdiv fp sum2 (flit fp (of_nat (length sq)))) (half_window s)
                      (signal_length s) (mean_signal s)
           in if ms = [] then Inl ValueError
              else Inr (s\<lparr>filtered_signal := fsig, squared_signal := sq,
                          sum_for_mean := sum2, mean_signal := ms\<rparr>))"

text \<open>Lines 117 to 180: filtering, smoothing and the threshold level.\<close>

definition qrs_signal_stage ::
  "'v float_ops \<Rightarrow> 'v \<Rightarrow> 'v QrsDetector \<Rightarrow> error + 'v \<times> 'v QrsDetector" where
  "qrs_signal_stage fp x s =
     bind_err (filter_call fp x (baseline_filter s)) (\<lambda>(x1, bf).
       let s1 = s\<lparr>baseline_filter := bf,
                  found_peaks := map (\<lambda>a. a + 1) (found_peaks s),
                  buffered_signal := x1 # butlast (buffered_signal s)\<rparr>
       in bind_err (filter_call fp (hd (buffered_signal s1)) (bandpass s1)) (\<lambda>(f, bp).
            bind_err (smooth_stage fp f (s1\<lparr>bandpass := bp\<rparr>)) (\<lambda>s2.
              Inr (threshold_stage fp (py_max fp (mean_signal s2)) s2))))"

text \<open>Lines 186 to 206: opening, extending and closing a box.\<close>

definition box_update :: "'v float_ops \<Rightarrow> bool \<Rightarrow> 'v \<Rightarrow> 'v QrsDetector \<Rightarrow> 'v QrsDetector" where
  "box_update fp over_thr b s =
     (if over_thr
      then (if box_last s = 0
            then s\<lparr>up_idx := half_window s, box_last := 1,
                   peak_max_values := (b, 0), peak_min_values := (b, 0)\<rparr>
            else (let t = (if fless fp (fst (peak_max_values s)) b
                           then s\<lparr>peak_max_values := (b, half_window s)\<rparr> else s)
                  in if fless fp b (fst (peak_min_values t))
                     then t\<lparr>peak_min_values := (b, half_window t)\<rparr> else t))
      else (if box_last s = 1 then s\<lparr>down_idx := half_window s, box_last := 0\<rparr> else s))"

text \<open>Lines 208 to 218: the validity filter.\<close>

definition valid_box :: "'v QrsDetector \<Rightarrow> bool" where
  "valid_box s \<longleftrightarrow>
     down_idx s = half_window s \<and> 700 > up_idx s - down_idx s \<and> up_idx s - down_idx s \<ge> 130"

definition chosen_peak :: "'v float_ops \<Rightarrow> 'v QrsDetector \<Rightarrow> 'v \<times> int" where
  "chosen_peak fp s =
     (if fle fp (fabs fp (fst (peak_min_values s))) (fst (peak_max_values s))
      then peak_max_values s else peak_min_values s)"

definition refractory_ok :: "'v float_ops \<Rightarrow> 'v QrsDetector \<Rightarrow> bool" where
  "refractory_ok fp s \<longleftrightarrow>
     (length (found_peaks s) > 0
        \<and> 2 * (hd (found_peaks s) - snd (chosen_peak fp s)) > qrs_fs s)
     \<or> length (found_peaks s) = 0"

definition peak_accept :: "'v float_ops \<Rightarrow> 'v QrsDetector \<Rightarrow> 'v QrsDetector" where
  "peak_accept fp s =
     (if valid_box s
      then (if refractory_ok fp s
            then s\<lparr>found_peaks := snd (chosen_peak fp s) # found_peaks s, up_idx := 0, down_idx := 0\<rparr>
            else s)
      else s)"

text \<open>Lines 220 to 223.\<close>

definition advance_indices :: "'v QrsDetector \<Rightarrow> 'v QrsDetector" where
  "advance_indices s =
     s\<lparr>up_idx := up_idx s + 1, down_idx := down_idx s + 1,
       peak_max_values := (fst (peak_max_values s), snd (peak_max_values s) + 1),
       peak_min_values := (fst (peak_min_values s), snd (peak_min_values s) + 1)\<rparr>"

text \<open>Lines 225 to 233: dropping a stale entry and reporting.\<close>

definition report_peak :: "'v QrsDetector \<Rightarrow> int \<times> 'v QrsDetector" where
  "report_peak s =
     (let s1 = (if length (found_peaks s) > 0 \<and> last (found_peaks s) > look_at_value s
                then s\<lparr>found_peaks := butlast (found_peaks s)\<rparr> else s)
      in if length (found_peaks s1) > 0 \<and> last (found_peaks s1) = look_at_value s1
         then (1, s1\<lparr>found_peaks := butlast (found_peaks s1)\<rparr>)
         else (0, s1))"

definition qrs_box_stage :: "'v float_ops \<Rightarrow> bool \<Rightarrow> 'v \<Rightarrow> 'v QrsDetector \<Rightarrow> int \<times> 'v QrsDetector" where
  "qrs_box_stage fp over_thr b s =
     report_peak (advance_indices (peak_accept fp (box_update fp over_thr b s)))"

definition qrs_detection ::
  "'v float_ops \<Rightarrow> 'v \<Rightarrow> 'v QrsDetector \<Rightarrow> error + int \<times> 'v QrsDetector" where
  "qrs_detection fp x s =
     bind_err (qrs_signal_stage fp x s) (\<lambda>(v_max, s1).
       if mean_signal s1 = [] then Inl IndexError
       else
         let over_thr = fless fp (fmul fp (thr s1) v_max) (hd (mean_signal s1))
         in if over_thr \<and> \<not> half_window s1 < int (length (buffered_signal s1)) then Inl IndexError
            else Inr (qrs_box_stage fp over_thr (buffered_signal s1 ! nat (half_window s1)) s1))"

fun qrs_calls :: "'v float_ops \<Rightarrow> 'v QrsDetector \<Rightarrow> 'v list \<Rightarrow> error + int list \<times> 'v QrsDetector" where
  "qrs_calls fp s [] = Inr ([], s)"
| "qrs_calls fp s (x # xs) =
     bind_err (qrs_detection fp x s) (\<lambda>(r, s1).
       bind_err (qrs_calls fp s1 xs) (\<lambda>(rs, s2). Inr (r # rs, s2)))"

definition qrs_outputs :: "'v float_ops \<Rightarrow> 'v QrsDetector \<Rightarrow> 'v list \<Rightarrow> error + int list" where
  "qrs_outputs fp s xs = bind_err (qrs_calls fp s xs) (\<lambda>(rs, s'). Inr rs)"

definition qrs_pending :: "'v float_ops \<Rightarrow> 'v QrsDetector \<Rightarrow> 'v list \<Rightarrow> error + int list" where
  "qrs_pending fp s xs = bind_err (qrs_calls fp s xs) (\<lambda>(rs, s'). Inr (found_peaks s'))"

text \<open>
  Observations of one call, for stating the claims: whether the smoothed signal is over the
  threshold, the box as updated by the call, and the index of the peak the call appends to
  \<open>found_peaks\<close>, if it appends one.
\<close>

definition call_over_threshold :: "'v float_ops \<Rightarrow> 'v \<Rightarrow> 'v QrsDetector \<Rightarrow> bool" where
  "call_over_threshold fp x s =
     (case qrs_signal_stage fp x s of
        Inl e \<Rightarrow> False
      | Inr (v_max, s1) \<Rightarrow> fless fp (fmul fp (thr s1) v_max) (hd (mean_signal s1)))"

definition call_box :: "'v float_ops \<Rightarrow> 'v \<Rightarrow> 'v QrsDetector \<Rightarrow> 'v QrsDetector option" where
  "call_box fp x s =
     (case qrs_signal_stage fp x s of
        Inl e \<Rightarrow> None
      | Inr (v_max, s1) \<Rightarrow>
          Some (box_update fp (fless fp (fmul fp (thr s1) v_max) (hd (mean_signal s1)))
                  (buffered_signal s1 ! nat (half_window s1)) s1))"

definition accepted_index :: "'v float_ops \<Rightarrow> 'v \<Rightarrow> 'v QrsDetector \<Rightarrow> int option" where
  "accepted_index fp x s =
     (case call_box fp x s of
        None \<Rightarrow> None
      | Some t \<Rightarrow>
          if found_peaks (peak_accept fp t) = found_peaks t then None
          else Some (hd (found_peaks (peak_accept fp t))))"

text \<open>
  The bookkeeping of one call (lines 119 and 186 to 233) as a function of the two values the
  signal stage hands to it, and the attributes it reads and writes.
\<close>

definition aged :: "'v QrsDetector \<Rightarrow> 'v QrsDetector" where
  "aged s = s\<lparr>found_peaks := map (\<lambda>a. a + 1) (found_peaks s)\<rparr>"

definition qrs_bookkeeping :: "'v float_ops \<Rightarrow> bool \<Rightarrow> 'v \<Rightarrow> 'v QrsDetector \<Rightarrow> int \<times> 'v QrsDetector" where
  "qrs_bookkeeping fp over_thr b s = qrs_box_stage fp over_thr b (aged s)"

fun bookkeeping_run ::
  "'v float_ops \<Rightarrow> 'v QrsDetector \<Rightarrow> (bool \<times> 'v) list \<Rightarrow> int list \<times> 'v QrsDetector" where
  "bookkeeping_run fp s [] = ([], s)"
| "bookkeeping_run fp s ((over_thr, b) # ys) =
     (case qrs_bookkeeping fp over_thr b s of
        (r, s1) \<Rightarrow> (case bookkeeping_run fp s1 ys of (rs, s2) \<Rightarrow> (r # rs, s2)))"

definition book_fields ::
  "'v QrsDetector \<Rightarrow> (int \<times> int \<times> int) \<times> int list \<times> ('v \<times> int) \<times> ('v \<times> int)
     \<times> (int \<times> int \<times> int \<times> int)" where
  "book_fields s = ((box_last s, up_idx s, down_idx s), found_peaks s, peak_max_values s,
     peak_min_values s, (look_at_value s, signal_length s, qrs_fs s, win_len s))"

text \<open>The invariant of the bookkeeping attributes between calls.\<close>

definition qrs_inv :: "'v QrsDetector \<Rightarrow> bool" where
  "qrs_inv s \<longleftrightarrow>
     win_len s = 153 \<and> qrs_fs s = 1024 \<and> 280 \<le> signal_length s \<and> signal_length s \<le> 400
     \<and> look_at_value s = signal_length s - 1
     \<and> (box_last s = 0 \<or> box_last s = 1)
     \<and> 0 \<le> snd (peak_max_values s) \<and> 0 \<le> snd (peak_min_values s)
     \<and> 0 \<le> down_idx s
     \<and> (down_idx s \<le> 76 \<longrightarrow> 0 \<le> up_idx s - down_idx s \<and> up_idx s - down_idx s \<le> 76)
     \<and> (case found_peaks s of
          [] \<Rightarrow> True
        | [q] \<Rightarrow> 0 \<le> q \<and> q < look_at_value s
        | _ \<Rightarrow> False)"

definition book_trace ::
  "'v float_ops \<Rightarrow> 'v QrsDetector \<Rightarrow> (bool \<times> 'v) list
     \<Rightarrow> int list \<times> (int \<times> int \<times> int) \<times> int list" where
  "book_trace fp s ys =
     (case bookkeeping_run fp s ys of
        (rs, s') \<Rightarrow> (rs, (box_last s', up_idx s', down_idx s'), found_peaks s'))"

text \<open>
  For the closed examples: the coefficients \<open>scipy.signal.butter\<close> returns for a second
  order 1 Hz highpass and a fourth order 8 to 20 Hz bandpass at 1024 Hz, rounded to ten
  digits, and the detector the constructor builds from them for delay 300. Every theorem
  below is proved for all designs and all arithmetics.
\<close>

definition butter_1024 :: "rat ButterDesign" where
  "butter_1024 =
     \<lparr>b_baseline = [0.9956706459, - 1.991341292, 0.9956706459],
      a_baseline = [1, - 1.991322548, 0.9913600351],
      b_band = [0.000001671544609, 0, - 0.000006686178436, 0, 0.00001002926765, 0,
                - 0.000006686178436, 0, 0.000001671544609],
      a_band = [1, - 7.784098692, 26.53407021, - 51.73333357, 63.09956239, - 49.30283478,
                24.09948658, - 6.737780911, 0.8249287765]\<rparr>"

definition fresh_detector :: "rat QrsDetector" where
  "fresh_detector = projr (QrsDetector_init exact_ops butter_1024 300)"

text \<open>
  The values handed to the bookkeeping on a run with one box: \<open>idle\<close> calls under the
  threshold, a box of \<open>width\<close> calls over it whose second sample is the extremum, and
  \<open>after\<close> calls under it.
\<close>

definition one_box :: "nat \<Rightarrow> nat \<Rightarrow> nat \<Rightarrow> (bool \<times> rat) list" where
  "one_box idle width after =
     replicate idle (False, 0) @ [(True, 0), (True, 1)] @ replicate (width - 2) (True, 0)
       @ replicate after (False, 0)"

text \<open>
  Two detectors at rest whose signal buffers hold one zero sample each, which keeps the
  evaluation of a call short: one whose box has been open for 224 calls with its extremum
  at buffer index \<open>p\<close>, and one with an accepted peak of index \<open>q\<close> waiting to be reported.
\<close>

definition open_box_detector :: "int \<Rightarrow> rat QrsDetector" where
  "open_box_detector p =
     fresh_detector\<lparr>buffered_signal := [0], squared_signal := [0],
                     box_last := 1, up_idx := 300, down_idx := 500,
                     peak_max_values := (1, p), peak_min_values := (0, p), last_max := 1\<rparr>"

definition pending_detector :: "int \<Rightarrow> rat QrsDetector" where
  "pending_detector q =
     fresh_detector\<lparr>buffered_signal := [0], squared_signal := [0],
                     up_idx := 600, down_idx := 500, found_peaks := [q], last_max := 1\<rparr>"

subsection \<open>HeartRateCalculator (heartbeat_calculating.py)\<close>

text \<open>
  \<open>last_beats\<close> holds the ages of the retained beats; the source keeps them in a float array
  whose entries are whole numbers, so they are integers here. \<open>int(a / b)\<close> truncates
  towards zero.
\<close>

record HeartRateCalculator =
  hr_delay :: int
  last_beats :: "int list"
  heart_rate :: int
  started :: bool

definition HeartRateCalculator_init :: "int \<Rightarrow> error + HeartRateCalculator" where
  "HeartRateCalculator_init d =
     (if 0 \<le> d \<and> d \<le> 500
      then Inr \<lparr>hr_delay = d, last_beats = [], heart_rate = 768, started = True\<rparr>
      else Inl AssertionError)"

definition sum_for_average :: "int list \<Rightarrow> int" where
  "sum_for_average bs = (\<Sum>i\<leftarrow>[0..<length bs - 1]. bs ! (i + 1) - bs ! i)"

definition update_heart_rate :: "HeartRateCalculator \<Rightarrow> HeartRateCalculator" where
  "update_heart_rate s =
     (let s1 = (if length (last_beats s) > 0 \<and> started s
                then s\<lparr>last_beats := [], started := False\<rparr> else s);
          s2 = (if length (last_beats s1) > 4
                then s1\<lparr>last_beats := take 4 (last_beats s1)\<rparr> else s1)
      in if length (last_beats s2) > 1
         then s2\<lparr>heart_rate := py_int_of_quotient (sum_for_average (last_beats s2))
                                   (int (length (last_beats s2)) - 1)\<rparr>
         else s2)"

definition get_heartrate :: "int \<Rightarrow> HeartRateCalculator \<Rightarrow> int \<times> HeartRateCalculator" where
  "get_heartrate peak s =
     (let s1 = (if peak = 1 then update_heart_rate (s\<lparr>last_beats := 0 # last_beats s\<rparr>) else s);
          s2 = s1\<lparr>last_beats := map (\<lambda>b. b + 1) (last_beats s1)\<rparr>
      in (heart_rate s2, s2))"

fun heartrate_calls :: "HeartRateCalculator \<Rightarrow> int list \<Rightarrow> int list" where
  "heartrate_calls s [] = []"
| "heartrate_calls s (p # ps) = fst (get_heartrate p s) # heartrate_calls (snd (get_heartrate p s)) ps"

fun heartrate_after :: "HeartRateCalculator \<Rightarrow> int list \<Rightarrow> HeartRateCalculator" where
  "heartrate_after s [] = s"
| "heartrate_after s (p # ps) = heartrate_after (snd (get_heartrate p s)) ps"

definition beat_gap :: "nat \<Rightarrow> int list" where
  "beat_gap I = 1 # replicate (I - 1) 0"

definition hr0 :: "int \<Rightarrow> HeartRateCalculator" where
  "hr0 d = \<lparr>hr_delay = d, last_beats = [], heart_rate = 768, started = True\<rparr>"

definition five_beats :: "nat \<Rightarrow> nat \<Rightarrow> int list" where
  "five_beats k I = replicate k 0 @ beat_gap I @ beat_gap I @ beat_gap I @ beat_gap I @ [1]"

section \<open>Shared facts\<close>

section \<open>HeartRateCalculator\<close>

lemma heartrate_calls_append:
  "heartrate_calls s (ps @ qs) = heartrate_calls s ps @ heartrate_calls (heartrate_after s ps) qs"
  by (induction ps arbitrary: s) simp_all

lemma heartrate_after_append:
  "heartrate_after s (ps @ qs) = heartrate_after (heartrate_after s ps) qs"
  by (induction ps arbitrary: s) simp_all

lemma length_heartrate_calls [simp]: "length (heartrate_calls s ps) = length ps"
  by (induction ps arbitrary: s) simp_all

lemma idle_after:
  "heartrate_after s (replicate n 0) = s\<lparr>last_beats := map (\<lambda>b. b + int n) (last_beats s)\<rparr>"
proof (induction n arbitrary: s)
  case 0
  then show ?case by simp
next
  case (Suc n)
  show ?case
    by (simp add: Suc get_heartrate_def o_def algebra_simps)
qed

lemma idle_calls:
  "heartrate_calls s (replicate n 0) = replicate n (heart_rate s)"
proof (induction n arbitrary: s)
  case 0
  then show ?case by simp
next
  case (Suc n)
  show ?case by (simp add: Suc get_heartrate_def)
qed

lemma gap_after:
  "0 < I \<Longrightarrow> heartrate_after s (beat_gap I) =
     (update_heart_rate (s\<lparr>last_beats := 0 # last_beats s\<rparr>))
       \<lparr>last_beats := map (\<lambda>b. b + int I)
           (last_beats (update_heart_rate (s\<lparr>last_beats := 0 # last_beats s\<rparr>)))\<rparr>"
  by (cases I) (simp_all add: beat_gap_def idle_after get_heartrate_def Let_def o_def algebra_simps)

lemma sum_for_average_2: "sum_for_average [a, b] = b - a"
  by (simp add: sum_for_average_def)

lemma sum_for_average_3: "sum_for_average [a, b, c] = c - a"
  by (simp add: sum_for_average_def numeral_2_eq_2)

lemma sum_for_average_4: "sum_for_average [a, b, c, d] = d - a"
  by (simp add: sum_for_average_def numeral_3_eq_3)

lemma py_int_of_quotient_mult: "0 < n \<Longrightarrow> 0 < I \<Longrightarrow> py_int_of_quotient (n * I) n = I"
  by (simp add: py_int_of_quotient_def)

lemma after_first_beat:
  "heartrate_after (hr0 d) (replicate k 0 @ beat_gap I) = (hr0 d)\<lparr>started := False\<rparr>"
  if "0 < I"
  using that by (simp add: heartrate_after_append idle_after gap_after hr0_def update_heart_rate_def)

lemma after_second_beat:
  "heartrate_after (hr0 d) (replicate k 0 @ beat_gap I @ beat_gap I) =
     (hr0 d)\<lparr>started := False, last_beats := [int I]\<rparr>"
  if "0 < I"
  using that after_first_beat [OF that, of d k]
  by (simp add: heartrate_after_append [of _ "replicate k 0 @ beat_gap I", simplified]
        gap_after hr0_def update_heart_rate_def)

lemma after_third_beat:
  "heartrate_after (hr0 d) (replicate k 0 @ beat_gap I @ beat_gap I @ beat_gap I) =
     (hr0 d)\<lparr>started := False, last_beats := [int I, 2 * int I], heart_rate := int I\<rparr>"
  if "0 < I"
  using that after_second_beat [OF that, of d k]
  by (simp add: heartrate_after_append [of _ "replicate k 0 @ beat_gap I @ beat_gap I", simplified]
        gap_after hr0_def update_heart_rate_def sum_for_average_2 py_int_of_quotient_def)

lemma after_fourth_beat:
  "heartrate_after (hr0 d) (replicate k 0 @ beat_gap I @ beat_gap I @ beat_gap I @ beat_gap I) =
     (hr0 d)\<lparr>started := False, last_beats := [int I, 2 * int I, 3 * int I], heart_rate := int I\<rparr>"
  if "0 < I"
  using that after_third_beat [OF that, of d k]
  by (simp add: heartrate_after_append [of _ "replicate k 0 @ beat_gap I @ beat_gap I @ beat_gap I", simplified]
        gap_after hr0_def update_heart_rate_def sum_for_average_3 py_int_of_quotient_def)

lemma heartrate_calls_nth:
  "heartrate_calls s (ps @ q # qs) ! length ps = fst (get_heartrate q (heartrate_after s ps))"
  by (simp add: heartrate_calls_append nth_append)

lemma length_beat_gap: "0 < I \<Longrightarrow> length (beat_gap I) = I"
  by (simp add: beat_gap_def)

lemma second_beat_call:
  assumes "0 < I"
  shows "heartrate_calls (hr0 d) (five_beats k I) ! (k + I) = 768"
proof -
  let ?ps = "replicate k 0 @ beat_gap I"
  let ?qs = "replicate (I - 1) 0 @ beat_gap I @ beat_gap I @ [1]"
  have split: "five_beats k I = ?ps @ 1 # ?qs"
    by (simp add: five_beats_def beat_gap_def)
  have len: "length ?ps = k + I"
    using assms by (simp add: length_beat_gap)
  have "fst (get_heartrate 1 (heartrate_after (hr0 d) ?ps)) = 768"
    unfolding after_first_beat [OF assms]
    by (simp add: get_heartrate_def update_heart_rate_def hr0_def)
  then show ?thesis
    using heartrate_calls_nth [of "hr0 d" ?ps 1 ?qs] unfolding split len by simp
qed

lemma fourth_beat_call:
  assumes "0 < I"
  shows "heartrate_calls (hr0 d) (five_beats k I) ! (k + 3 * I) = int I"
proof -
  let ?ps = "replicate k 0 @ beat_gap I @ beat_gap I @ beat_gap I"
  let ?qs = "replicate (I - 1) 0 @ [1]"
  have split: "five_beats k I = ?ps @ 1 # ?qs"
    by (simp add: five_beats_def beat_gap_def)
  have len: "length ?ps = k + 3 * I"
    using assms by (simp add: length_beat_gap)
  have "fst (get_heartrate 1 (heartrate_after (hr0 d) ?ps)) = int I"
    unfolding after_third_beat [OF assms]
    using assms
    by (simp add: get_heartrate_def update_heart_rate_def hr0_def sum_for_average_3
          py_int_of_quotient_def sgn_if)
  then show ?thesis
    using heartrate_calls_nth [of "hr0 d" ?ps 1 ?qs] unfolding split len by simp
qed

lemma first_beat_discarded:
  "last_beats (heartrate_after (hr0 d) (replicate k 0 @ [1])) = []"
  by (simp add: heartrate_after_append idle_after get_heartrate_def update_heart_rate_def hr0_def)

lemma single_beat_calls:
  "heartrate_calls (hr0 d) (replicate a 0 @ [1] @ replicate b 0) = replicate (a + 1 + b) 768"
proof -
  have "heartrate_after (hr0 d) (replicate a 0 @ [1]) = (hr0 d)\<lparr>started := False\<rparr>"
    by (simp add: heartrate_after_append idle_after get_heartrate_def update_heart_rate_def hr0_def)
  then have "heartrate_calls (hr0 d) ((replicate a 0 @ [1]) @ replicate b 0)
          = heartrate_calls (hr0 d) (replicate a 0 @ [1]) @ replicate b 768"
    by (simp only: heartrate_calls_append [of _ "replicate a 0 @ [1]"] idle_calls) (simp add: hr0_def)
  moreover have "heartrate_calls (hr0 d) (replicate a 0 @ [1]) = replicate a 768 @ [768]"
    by (simp add: heartrate_calls_append idle_calls idle_after get_heartrate_def update_heart_rate_def hr0_def)
  ultimately show ?thesis
    by (simp add: replicate_add replicate_append_same)
qed

text \<open>
  Claim C5. Feed a fresh HeartRateCalculator \<open>k\<close> ticks without a peak and then five beats
  spaced exactly \<open>I\<close> samples apart (\<open>I \<ge> 2\<close>). The call at the fourth beat returns
  \<open>I\<close>. The first beat is discarded: right after it the beat history is empty, and the call at
  the second beat still returns the default 768, so no interval is ever measured from the
  first beat. If only one beat is ever recorded, every call returns 768.
\<close>

theorem heart_rate_five_beats:
  assumes "2 \<le> I" and "HeartRateCalculator_init d = Inr s"
  shows "heartrate_calls s (five_beats k I) ! (k + 3 * I) = int I
       \<and> heartrate_calls s (five_beats k I) ! (k + I) = 768
       \<and> last_beats (heartrate_after s (replicate k 0 @ [1])) = []
       \<and> heartrate_calls s (replicate a 0 @ [1] @ replicate b 0) = replicate (a + 1 + b) 768"
proof -
  have s: "s = hr0 d"
    using assms(2) by (simp add: HeartRateCalculator_init_def hr0_def split: if_splits)
  have I: "0 < I" using assms(1) by simp
  show ?thesis
    unfolding s
    using fourth_beat_call [OF I, of d k] second_beat_call [OF I, of d k]
      first_beat_discarded [of d k] single_beat_calls [of d a b]
    by simp
qed

theorem heart_rate_five_beats_witness:
  "heartrate_calls (hr0 300) (five_beats 7 512) ! (7 + 3 * 512) = 512
   \<and> heartrate_calls (hr0 300) (five_beats 7 512) ! (7 + 512) = 768
   \<and> last_beats (heartrate_after (hr0 300) (replicate 7 0 @ [1])) = []
   \<and> heartrate_calls (hr0 300) (replicate 2 0 @ [1] @ replicate 3 0) = replicate (2 + 1 + 3) 768"
proof -
  have i: "(2::nat) \<le> 512" by simp
  have c: "HeartRateCalculator_init 300 = Inr (hr0 300)"
    by (simp add: HeartRateCalculator_init_def hr0_def)
  show ?thesis
    using heart_rate_five_beats [OF i c, of 7 2 3] by simp
qed

end
